theory Spec2Isabelle
  imports Main
begin

section \<open>JavaScript string primitives used by the cloner\<close>

text \<open>\<^verbatim>\<open>s.startsWith(p)\<close>: \<open>p\<close> is a prefix of \<open>s\<close>.\<close>

fun startsWith :: "string \<Rightarrow> string \<Rightarrow> bool" where
  "startsWith s [] = True"
| "startsWith [] (p # ps) = False"
| "startsWith (c # cs) (p # ps) = (c = p \<and> startsWith cs ps)"

text \<open>\<^verbatim>\<open>s.includes(p)\<close>: \<open>p\<close> occurs in \<open>s\<close> as a contiguous substring.\<close>

fun includes_str :: "string \<Rightarrow> string \<Rightarrow> bool" where
  "includes_str [] p = (p = [])"
| "includes_str (c # cs) p = (startsWith (c # cs) p \<or> includes_str cs p)"

text \<open>\<^verbatim>\<open>patterns.some((pattern) => s.includes(pattern))\<close>\<close>

definition some_includes :: "string list \<Rightarrow> string \<Rightarrow> bool" where
  "some_includes patterns s = list_ex (\<lambda>pattern. includes_str s pattern) patterns"

section \<open>Tracking filter\<close>

definition trackingPatterns_src :: "string list" where
  "trackingPatterns_src =
    [''google-analytics'', ''gtag'', ''googletagmanager'', ''facebook.net'',
     ''twitter.com'', ''linkedin.com'', ''hotjar'', ''mixpanel'', ''segment.com'']"

definition isTrackingScript :: "string \<Rightarrow> bool" where
  "isTrackingScript src = some_includes trackingPatterns_src src"

definition trackingPatterns_content :: "string list" where
  "trackingPatterns_content =
    [''gtag'', ''ga('', ''GoogleAnalytics'', ''google-analytics'', ''fbq('', ''facebook'',
     ''_gaq'', ''gtm'', ''dataLayer'', ''mixpanel'', ''hotjar'', ''segment'', ''_hj'']"

definition isTrackingScriptContent :: "string \<Rightarrow> bool" where
  "isTrackingScriptContent content = some_includes trackingPatterns_content content"

section \<open>The platform's URL parser (\<^verbatim>\<open>new URL(input, base)\<close>)\<close>

text \<open>
  The cloner calls the runtime's WHATWG URL class. It is not part of the repository, so it is
  modelled here on the inputs the cloner meets: ASCII references without characters that
  need percent-encoding, without user info or ports that need normalising, without
  surrounding white space, and without the scheme-with-relative-path form
  (\<^verbatim>\<open>http:foo\<close> against an \<^verbatim>\<open>http\<close> base). \<open>None\<close> is the \<^verbatim>\<open>TypeError\<close> the constructor throws.
\<close>

datatype url_kind = Authority | PathOnly | Opaque

record url =
  u_scheme :: string
  u_kind :: url_kind
  u_host :: string
  pathname :: string
  u_search :: string
  u_hash :: string

definition href :: "url \<Rightarrow> string" where
  "href u = u_scheme u @ '':'' @ (if u_kind u = Authority then ''//'' @ u_host u else [])
            @ pathname u @ u_search u @ u_hash u"

definition lower_chars :: string where "lower_chars = ''abcdefghijklmnopqrstuvwxyz''"
definition upper_chars :: string where "upper_chars = ''ABCDEFGHIJKLMNOPQRSTUVWXYZ''"
definition digit_chars :: string where "digit_chars = ''0123456789''"

definition is_alpha :: "char \<Rightarrow> bool" where
  "is_alpha c = (c \<in> set lower_chars \<or> c \<in> set upper_chars)"

definition is_alnum :: "char \<Rightarrow> bool" where
  "is_alnum c = (is_alpha c \<or> c \<in> set digit_chars)"

definition to_lower :: "char \<Rightarrow> char" where
  "to_lower c = (case map_of (zip upper_chars lower_chars) c of Some l \<Rightarrow> l | None \<Rightarrow> c)"

text \<open>\<^verbatim>\<open>s.toLowerCase()\<close> on ASCII text.\<close>

definition toLowerCase :: "string \<Rightarrow> string" where
  "toLowerCase s = map to_lower s"

definition special_schemes :: "string list" where
  "special_schemes = [''http'', ''https'', ''ws'', ''wss'', ''ftp'']"

definition is_scheme_char :: "char \<Rightarrow> bool" where
  "is_scheme_char c = (is_alnum c \<or> c \<in> set ''+-.'')"

text \<open>The scheme of an input, lower-cased, and what follows its colon.\<close>

definition scheme_split :: "string \<Rightarrow> (string \<times> string) option" where
  "scheme_split s =
     (case s of
        [] \<Rightarrow> None
      | c # cs \<Rightarrow>
          if \<not> is_alpha c then None
          else (case dropWhile is_scheme_char s of
                  [] \<Rightarrow> None
                | d # rest \<Rightarrow>
                    if d = CHR '':'' then Some (toLowerCase (takeWhile is_scheme_char s), rest)
                    else None))"

text \<open>\<^verbatim>\<open>s.split(sep)\<close> for a one-character separator.\<close>

fun split_on :: "char \<Rightarrow> string \<Rightarrow> string list" where
  "split_on sep [] = [[]]"
| "split_on sep (c # cs) =
     (if c = sep then [] # split_on sep cs
      else (case split_on sep cs of [] \<Rightarrow> [[c]] | w # ws \<Rightarrow> (c # w) # ws))"

text \<open>Removal of \<^verbatim>\<open>.\<close> and \<^verbatim>\<open>..\<close> segments; the accumulator holds the kept segments reversed.\<close>

fun remove_dots :: "string list \<Rightarrow> string list \<Rightarrow> string list" where
  "remove_dots acc [] = rev acc"
| "remove_dots acc [s] =
     (if s = ''..'' then rev ([] # tl acc)
      else if s = ''.'' then rev ([] # acc)
      else rev (s # acc))"
| "remove_dots acc (s # t # ts) =
     (if s = ''..'' then remove_dots (tl acc) (t # ts)
      else if s = ''.'' then remove_dots acc (t # ts)
      else remove_dots (s # acc) (t # ts))"

definition path_of_segs :: "string list \<Rightarrow> string" where
  "path_of_segs segs = concat (map (\<lambda>s. CHR ''/'' # s) segs)"

definition path_segs :: "string \<Rightarrow> string list" where
  "path_segs p = split_on CHR ''/'' (case p of [] \<Rightarrow> [] | c # cs \<Rightarrow> if c = CHR ''/'' then cs else p)"

definition normalize_path :: "string \<Rightarrow> string" where
  "normalize_path p = path_of_segs (remove_dots [] (path_segs p))"

definition is_path_end :: "char \<Rightarrow> bool" where
  "is_path_end c = (c = CHR ''?'' \<or> c = CHR ''#'')"

definition before_query :: "string \<Rightarrow> string" where
  "before_query s = takeWhile (\<lambda>c. \<not> is_path_end c) s"

definition query_of :: "string \<Rightarrow> string" where
  "query_of s = takeWhile (\<lambda>c. c \<noteq> CHR ''#'') (dropWhile (\<lambda>c. \<not> is_path_end c) s)"

definition fragment_of :: "string \<Rightarrow> string" where
  "fragment_of s = dropWhile (\<lambda>c. c \<noteq> CHR ''#'') s"

definition is_slash :: "char \<Rightarrow> bool" where
  "is_slash c = (c = CHR ''/'' \<or> c = CHR 0x5C)"

definition unbackslash :: "string \<Rightarrow> string" where
  "unbackslash s = map (\<lambda>c. if c = CHR 0x5C then CHR ''/'' else c) s"

text \<open>An input that carries its own scheme.\<close>

definition parse_absolute :: "string \<Rightarrow> string \<Rightarrow> url option" where
  "parse_absolute sch rest =
     (if sch \<in> set special_schemes then
        (let r = dropWhile is_slash (unbackslash (before_query rest));
             host = takeWhile (\<lambda>c. c \<noteq> CHR ''/'') r
         in if host = [] then None
            else Some \<lparr>u_scheme = sch, u_kind = Authority, u_host = toLowerCase host,
                       pathname = normalize_path (dropWhile (\<lambda>c. c \<noteq> CHR ''/'') r),
                       u_search = query_of rest, u_hash = fragment_of rest\<rparr>)
      else if startsWith rest ''//'' then
        (let r = drop 2 (before_query rest);
             p = dropWhile (\<lambda>c. c \<noteq> CHR ''/'') r
         in Some \<lparr>u_scheme = sch, u_kind = Authority, u_host = takeWhile (\<lambda>c. c \<noteq> CHR ''/'') r,
                   pathname = (if p = [] then [] else normalize_path p),
                   u_search = query_of rest, u_hash = fragment_of rest\<rparr>)
      else if startsWith rest ''/'' then
        Some \<lparr>u_scheme = sch, u_kind = PathOnly, u_host = [],
               pathname = normalize_path (before_query rest),
               u_search = query_of rest, u_hash = fragment_of rest\<rparr>
      else
        Some \<lparr>u_scheme = sch, u_kind = Opaque, u_host = [],
               pathname = before_query rest,
               u_search = query_of rest, u_hash = fragment_of rest\<rparr>)"

text \<open>An input without a scheme, resolved against a parsed base.\<close>

definition parse_relative :: "string \<Rightarrow> url \<Rightarrow> url option" where
  "parse_relative input b =
     (let special = (u_scheme b \<in> set special_schemes);
          p = (if special then unbackslash (before_query input) else before_query input);
          q = query_of input;
          f = fragment_of input
      in if u_kind b = Opaque then
           (if p = [] \<and> q = [] \<and> f \<noteq> [] then Some (b\<lparr>u_hash := f\<rparr>) else None)
         else if startsWith p ''//'' then parse_absolute (u_scheme b) input
         else if startsWith p ''/'' then
           Some (b\<lparr>pathname := normalize_path p, u_search := q, u_hash := f\<rparr>)
         else if p = [] then
           (if q = [] then Some (b\<lparr>u_hash := f\<rparr>) else Some (b\<lparr>u_search := q, u_hash := f\<rparr>))
         else
           Some (b\<lparr>pathname := path_of_segs
                                 (remove_dots [] (butlast (path_segs (pathname b)) @ split_on CHR ''/'' p)),
                   u_search := q, u_hash := f\<rparr>))"

text \<open>The constructor parses the base first, when one is given, and throws if that
  fails, whatever the input.\<close>

definition URL_new :: "string \<Rightarrow> string option \<Rightarrow> url option" where
  "URL_new input base =
     (case base of
        None \<Rightarrow>
          (case scheme_split input of
             Some (sch, rest) \<Rightarrow> parse_absolute sch rest
           | None \<Rightarrow> None)
      | Some bs \<Rightarrow>
          (case scheme_split bs of
             None \<Rightarrow> None
           | Some (bsch, brest) \<Rightarrow>
               (case parse_absolute bsch brest of
                  None \<Rightarrow> None
                | Some b \<Rightarrow>
                    (case scheme_split input of
                       Some (sch, rest) \<Rightarrow> parse_absolute sch rest
                     | None \<Rightarrow> parse_relative input b))))"

section \<open>URL resolver\<close>

text \<open>
  \<^verbatim>\<open>resolveUrl(url, baseUrl)\<close>: \<^verbatim>\<open>try { return new URL(url, baseUrl).href } catch { return null }\<close>.
  \<open>None\<close> is \<^verbatim>\<open>null\<close>.
\<close>

definition resolveUrl :: "string \<Rightarrow> string \<Rightarrow> string option" where
  "resolveUrl u baseUrl = (case URL_new u (Some baseUrl) of None \<Rightarrow> None | Some x \<Rightarrow> Some (href x))"

section \<open>Local file names\<close>

text \<open>
  Node's \<^verbatim>\<open>path.basename\<close> and \<^verbatim>\<open>path.extname\<close> (POSIX flavour): both look at the last
  portion of the path, after trailing slashes are dropped. \<^verbatim>\<open>extname\<close> is the text from the
  last dot of that portion, and is empty when there is no dot, when the only dot is the
  portion's first character, and for the portion \<^verbatim>\<open>..\<close>.
\<close>

definition basename :: "string \<Rightarrow> string" where
  "basename p = rev (takeWhile (\<lambda>c. c \<noteq> CHR ''/'') (dropWhile (\<lambda>c. c = CHR ''/'') (rev p)))"

definition after_last_dot :: "string \<Rightarrow> string" where
  "after_last_dot s = rev (takeWhile (\<lambda>c. c \<noteq> CHR ''.'') (rev s))"

definition before_last_dot :: "string \<Rightarrow> string" where
  "before_last_dot s = rev (drop 1 (dropWhile (\<lambda>c. c \<noteq> CHR ''.'') (rev s)))"

definition extname :: "string \<Rightarrow> string" where
  "extname p =
     (let seg = basename p
      in if CHR ''.'' \<notin> set seg then []
         else if before_last_dot seg = [] then []
         else if seg = ''..'' then []
         else CHR ''.'' # after_last_dot seg)"

text \<open>\<^verbatim>\<open>fileName.replace(/[^a-zA-Z0-9.-]/g, "_")\<close>\<close>

definition sanitize :: "string \<Rightarrow> string" where
  "sanitize s = map (\<lambda>c. if is_alnum c \<or> c = CHR ''.'' \<or> c = CHR ''-'' then c else CHR ''_'') s"

text \<open>\<^verbatim>\<open>fileName.replace(/\.[^.]*$/, '.png')\<close>: the text from the last dot on is replaced.\<close>

definition replace_ext_png :: "string \<Rightarrow> string" where
  "replace_ext_png s = (if CHR ''.'' \<in> set s then before_last_dot s @ ''.png'' else s)"

definition validImageExts :: "string list" where
  "validImageExts = [''.jpg'', ''.jpeg'', ''.png'', ''.gif'', ''.svg'', ''.webp'', ''.ico'']"

text \<open>Decimal rendering of a clock reading, as the template literal prints \<^verbatim>\<open>Date.now()\<close>.\<close>

function show_nat :: "nat \<Rightarrow> string" where
  "show_nat n = (if n < 10 then [digit_chars ! n] else show_nat (n div 10) @ [digit_chars ! (n mod 10)])"
  by pat_completeness auto
termination
  by (relation "measure id") simp_all

text \<open>
  \<^verbatim>\<open>getFileName(url, type)\<close>. The first argument \<open>now\<close> is the value \<^verbatim>\<open>Date.now()\<close> returns if
  the \<^verbatim>\<open>catch\<close> branch is reached, which happens exactly when \<^verbatim>\<open>new URL(url)\<close> (no base) throws.
\<close>

definition getFileName :: "nat \<Rightarrow> string \<Rightarrow> string \<Rightarrow> string" where
  "getFileName now u type =
     (case URL_new u None of
        None \<Rightarrow>
          if type = ''css'' then ''style.css''
          else if type = ''js'' then ''script.js''
          else ''image_'' @ show_nat now @ ''.png''
      | Some urlObj \<Rightarrow>
          (let fileName0 = basename (pathname urlObj);
               fileName1 = (if fileName0 = [] \<or> fileName0 = ''/''
                            then (if type = ''css'' then ''style''
                                  else if type = ''js'' then ''script'' else ''image'')
                            else fileName0);
               fileName2 = sanitize fileName1;
               fileName3 = (if extname fileName2 = []
                            then fileName2 @ (if type = ''css'' then ''.css''
                                              else if type = ''js'' then ''.js'' else ''.png'')
                            else fileName2)
           in if type = ''images'' \<and> toLowerCase (extname fileName3) \<notin> set validImageExts
              then replace_ext_png fileName3
              else fileName3))"

section \<open>The cloner instance, the network and the disk\<close>

text \<open>
  \<open>downloadedAssets\<close> is the instance field \<^verbatim>\<open>this.downloadedAssets\<close> (a \<^verbatim>\<open>Set\<close> created once
  in the constructor). \<open>requests\<close> lists the GET requests issued so far and \<open>writes\<close> the
  file writes completed so far, both in order: they are the observable effects.
\<close>

record world =
  downloadedAssets :: "string set"
  requests :: "string list"
  writes :: "(string \<times> string) list"

text \<open>\<^verbatim>\<open>new WebsiteCloner()\<close> on an untouched network and disk.\<close>

definition new_cloner :: world where
  "new_cloner = \<lparr>downloadedAssets = {}, requests = [], writes = []\<rparr>"

text \<open>
  What surrounds the program: \<open>net u\<close> is the body a GET of \<open>u\<close> delivers, \<open>None\<close> for a
  timeout, a non-success status or a transport error; \<open>dir_ok\<close> tells whether
  \<^verbatim>\<open>fs.ensureDir\<close> succeeds, \<open>write_ok\<close> whether a write to a path completes; \<open>clock k\<close> is
  what \<^verbatim>\<open>Date.now()\<close> returns the \<open>k\<close>-th time \<^verbatim>\<open>getFileName\<close> is called within a run.
\<close>

record env =
  net :: "string \<Rightarrow> string option"
  dir_ok :: "string \<Rightarrow> bool"
  write_ok :: "string \<Rightarrow> bool"
  clock :: "nat \<Rightarrow> nat"

datatype error = FsError string

text \<open>\<^verbatim>\<open>path.join(a, b)\<close> and \<^verbatim>\<open>path.dirname(p)\<close>, without Node's normalisation of the result.\<close>

definition path_join :: "string \<Rightarrow> string \<Rightarrow> string" where
  "path_join a b = a @ ''/'' @ b"

definition dirname :: "string \<Rightarrow> string" where
  "dirname p =
     (if CHR ''/'' \<notin> set p then ''.''
      else (case rev (drop 1 (dropWhile (\<lambda>c. c \<noteq> CHR ''/'') (rev p))) of
              [] \<Rightarrow> ''/''
            | d # ds \<Rightarrow> d # ds))"

subsection \<open>\<^verbatim>\<open>downloadAsset\<close>\<close>

text \<open>
  \<^verbatim>\<open>downloadAsset\<close> is an \<^verbatim>\<open>async\<close> function. A call runs synchronously up to its first
  \<^verbatim>\<open>await\<close>: it tests \<^verbatim>\<open>this.downloadedAssets.has(url)\<close> and either returns at once or issues
  the request and suspends. The rest of the body runs later, from the event loop, when the
  response has arrived; \<^verbatim>\<open>this.downloadedAssets.add(url)\<close> happens only there, in the
  writer's \<^verbatim>\<open>finish\<close> handler. The two halves are therefore two functions, and a \<open>task\<close> is
  the suspended call in between.
\<close>

datatype task = Returned | Awaiting string string

datatype outcome = Fulfilled | Rejected

definition downloadAsset_call :: "string \<Rightarrow> string \<Rightarrow> world \<Rightarrow> task \<times> world" where
  "downloadAsset_call u localPath w =
     (if u \<in> downloadedAssets w then (Returned, w)
      else (Awaiting u localPath, w\<lparr>requests := requests w @ [u]\<rparr>))"

text \<open>
  The second half: a failed request and a failed \<^verbatim>\<open>ensureDir\<close> are caught and logged, so the
  promise is fulfilled with nothing written; a write that completes records the URL; a
  writer error rejects the promise.
\<close>

definition downloadAsset_resume :: "env \<Rightarrow> task \<Rightarrow> world \<Rightarrow> outcome \<times> world" where
  "downloadAsset_resume e t w =
     (case t of
        Returned \<Rightarrow> (Fulfilled, w)
      | Awaiting u localPath \<Rightarrow>
          (case net e u of
             None \<Rightarrow> (Fulfilled, w)
           | Some body \<Rightarrow>
               if \<not> dir_ok e (dirname localPath) then (Fulfilled, w)
               else if write_ok e localPath then
                 (Fulfilled, w\<lparr>writes := writes w @ [(localPath, body)],
                                downloadedAssets := insert u (downloadedAssets w)\<rparr>)
               else (Rejected, w)))"

text \<open>
  \<^verbatim>\<open>await Promise.allSettled(tasks)\<close>: every suspended call runs to its end; the model
  completes them in the order they were issued.
\<close>

fun allSettled :: "env \<Rightarrow> task list \<Rightarrow> world \<Rightarrow> outcome list \<times> world" where
  "allSettled e [] w = ([], w)"
| "allSettled e (t # ts) w =
     (let (r, w1) = downloadAsset_resume e t w;
          (rs, w2) = allSettled e ts w1
      in (r # rs, w2))"


section \<open>The document tree\<close>

text \<open>
  The tree cheerio builds from the markup: elements with a lower-case tag name, their
  attributes in order, and their children; text nodes. A document is the list of its
  top-level nodes. Parsing and serialising (\<^verbatim>\<open>load(html)\<close>, \<^verbatim>\<open>$.html()\<close>) are not modelled:
  markup is identified with its tree.
\<close>

datatype node = Element string "(string \<times> string) list" "node list" | Text string

type_synonym attrs = "(string \<times> string) list"

text \<open>\<^verbatim>\<open>$(el).attr(name)\<close> (\<open>None\<close> is \<^verbatim>\<open>undefined\<close>) and \<^verbatim>\<open>$(el).attr(name, value)\<close>.\<close>

definition attr :: "attrs \<Rightarrow> string \<Rightarrow> string option" where
  "attr a name = map_of a name"

fun set_attr :: "attrs \<Rightarrow> string \<Rightarrow> string \<Rightarrow> attrs" where
  "set_attr [] name v = [(name, v)]"
| "set_attr ((k, x) # a) name v = (if k = name then (k, v) # a else (k, x) # set_attr a name v)"

text \<open>JavaScript truthiness of an attribute value: present and not the empty string.\<close>

definition truthy :: "string option \<Rightarrow> bool" where
  "truthy v = (case v of None \<Rightarrow> False | Some s \<Rightarrow> s \<noteq> [])"

text \<open>
  \<^verbatim>\<open>$(el).html()\<close> of a \<^verbatim>\<open>style\<close> or \<^verbatim>\<open>script\<close> element. The parser gives such elements text
  children only, so their inner markup is the text of those children.
\<close>

fun text_of :: "node \<Rightarrow> string" where
  "text_of (Text t) = t"
| "text_of (Element t a cs) = []"

definition html_of :: "node \<Rightarrow> string" where
  "html_of n = (case n of Text t \<Rightarrow> [] | Element t a cs \<Rightarrow> concat (map text_of cs))"

text \<open>All elements of a document, in document order: what a selector matches is a
  sublist of it.\<close>

fun elements :: "node \<Rightarrow> node list" where
  "elements (Text t) = []"
| "elements (Element t a cs) = Element t a cs # concat (map elements cs)"

definition select :: "(node \<Rightarrow> bool) \<Rightarrow> node list \<Rightarrow> node list" where
  "select P doc = filter P (concat (map elements doc))"

text \<open>\<^verbatim>\<open>$(sel).remove()\<close>, and \<^verbatim>\<open>$(sel).each\<close> with a callback that removes the elements
  satisfying \<open>P\<close>: the matched nodes disappear with their subtrees.\<close>

fun prune :: "(node \<Rightarrow> bool) \<Rightarrow> node \<Rightarrow> node" where
  "prune P (Text t) = Text t"
| "prune P (Element t a cs) = Element t a (map (prune P) (filter (\<lambda>c. \<not> P c) cs))"

definition remove_all :: "(node \<Rightarrow> bool) \<Rightarrow> node list \<Rightarrow> node list" where
  "remove_all P doc = map (prune P) (filter (\<lambda>c. \<not> P c) doc)"

text \<open>
  \<^verbatim>\<open>$(sel).each((_, el) => ...)\<close> with a callback that reads and sets attributes of its own
  element and has side effects: the elements matching \<open>P\<close> are visited in document order,
  the state threaded through.
\<close>

fun each_node :: "(node \<Rightarrow> bool) \<Rightarrow> (attrs \<Rightarrow> 's \<Rightarrow> attrs \<times> 's) \<Rightarrow> node \<Rightarrow> 's \<Rightarrow> node \<times> 's"
  and each :: "(node \<Rightarrow> bool) \<Rightarrow> (attrs \<Rightarrow> 's \<Rightarrow> attrs \<times> 's) \<Rightarrow> node list \<Rightarrow> 's \<Rightarrow> node list \<times> 's"
  where
  "each_node P f (Text t) s = (Text t, s)"
| "each_node P f (Element t a cs) s =
     (let (a', s1) = (if P (Element t a cs) then f a s else (a, s));
          (cs', s2) = each P f cs s1
      in (Element t a' cs', s2))"
| "each P f [] s = ([], s)"
| "each P f (n # ns) s =
     (let (n', s1) = each_node P f n s;
          (ns', s2) = each P f ns s1
      in (n' # ns', s2))"

text \<open>\<^verbatim>\<open>$(tag).append(new)\<close> and \<^verbatim>\<open>$(tag).prepend(new)\<close>: every element with that tag receives
  the new nodes after, respectively before, its children.\<close>

fun append_in :: "string \<Rightarrow> node list \<Rightarrow> node \<Rightarrow> node" where
  "append_in tg new (Text t) = Text t"
| "append_in tg new (Element t a cs) =
     Element t a (map (append_in tg new) cs @ (if t = tg then new else []))"

fun prepend_in :: "string \<Rightarrow> node list \<Rightarrow> node \<Rightarrow> node" where
  "prepend_in tg new (Text t) = Text t"
| "prepend_in tg new (Element t a cs) =
     Element t a ((if t = tg then new else []) @ map (prepend_in tg new) cs)"

subsection \<open>Selectors\<close>

fun has_tag :: "string \<Rightarrow> node \<Rightarrow> bool" where
  "has_tag tg (Text t) = False"
| "has_tag tg (Element t a cs) = (t = tg)"

fun attrs_of :: "node \<Rightarrow> attrs" where
  "attrs_of (Text t) = []"
| "attrs_of (Element t a cs) = a"

definition node_attr :: "node \<Rightarrow> string \<Rightarrow> string option" where
  "node_attr n name = attr (attrs_of n) name"

text \<open>\<^verbatim>\<open>tag[name='value']\<close> and \<^verbatim>\<open>tag[name]\<close>.\<close>

definition tag_attr_is :: "string \<Rightarrow> string \<Rightarrow> string \<Rightarrow> node \<Rightarrow> bool" where
  "tag_attr_is tg name v n = (has_tag tg n \<and> node_attr n name = Some v)"

definition tag_has_attr :: "string \<Rightarrow> string \<Rightarrow> node \<Rightarrow> bool" where
  "tag_has_attr tg name n = (has_tag tg n \<and> node_attr n name \<noteq> None)"

definition is_stylesheet_link :: "node \<Rightarrow> bool" where
  "is_stylesheet_link n = tag_attr_is ''link'' ''rel'' ''stylesheet'' n"

text \<open>\<^verbatim>\<open>link[rel="icon"], link[rel="shortcut icon"], link[rel="apple-touch-icon"]\<close>\<close>

definition is_icon_link :: "node \<Rightarrow> bool" where
  "is_icon_link n = (tag_attr_is ''link'' ''rel'' ''icon'' n
      \<or> tag_attr_is ''link'' ''rel'' ''shortcut icon'' n
      \<or> tag_attr_is ''link'' ''rel'' ''apple-touch-icon'' n)"

section \<open>String helpers of the asset scan\<close>

definition is_space :: "char \<Rightarrow> bool" where
  "is_space c = (c \<in> set [CHR '' '', CHR 0x09, CHR 0x0A, CHR 0x0B, CHR 0x0C, CHR 0x0D])"

text \<open>\<^verbatim>\<open>s.trim()\<close> on ASCII text.\<close>

definition trim :: "string \<Rightarrow> string" where
  "trim s = rev (dropWhile is_space (rev (dropWhile is_space s)))"

text \<open>\<^verbatim>\<open>s.replace(pat, rep)\<close> with a string pattern: the first occurrence only. The
  replacement texts of the cloner are sanitised file names, free of \<^verbatim>\<open>$\<close>.\<close>

fun replace_first :: "string \<Rightarrow> string \<Rightarrow> string \<Rightarrow> string" where
  "replace_first [] pat rep = (if pat = [] then rep else [])"
| "replace_first (c # cs) pat rep =
     (if startsWith (c # cs) pat then rep @ drop (length pat) (c # cs)
      else c # replace_first cs pat rep)"

text \<open>
  The regular expression \<^verbatim>\<open>/url\(["']?(.*?)["']?\)/g\<close>. \<open>lazy_capture\<close> is the lazy group
  followed by the optional closing quote and the parenthesis: it returns the captured text
  and the number of characters matched; the dot does not match a line terminator.
\<close>

definition is_quote :: "char \<Rightarrow> bool" where
  "is_quote c = (c = CHR 0x22 \<or> c = CHR 0x27)"

fun lazy_capture :: "string \<Rightarrow> (string \<times> nat) option" where
  "lazy_capture [] = None"
| "lazy_capture (c # cs) =
     (if c = CHR '')'' then Some ([], 1)
      else if is_quote c \<and> startsWith cs '')'' then Some ([], 2)
      else if c = CHR 0x0A \<or> c = CHR 0x0D then None
      else (case lazy_capture cs of None \<Rightarrow> None | Some (cap, n) \<Rightarrow> Some (c # cap, Suc n)))"

text \<open>A match starting at the head of the text: the opening quote is taken when that
  leads to a match, and left to the group otherwise.\<close>

definition url_match :: "string \<Rightarrow> (string \<times> nat) option" where
  "url_match s =
     (if startsWith s ''url('' then
        (let r = drop 4 s;
             quoted = (case r of [] \<Rightarrow> None
                       | q # r' \<Rightarrow> if is_quote q
                                   then (case lazy_capture r' of None \<Rightarrow> None
                                         | Some (cap, n) \<Rightarrow> Some (cap, n + 5))
                                   else None)
         in case quoted of
              Some m \<Rightarrow> Some m
            | None \<Rightarrow> (case lazy_capture r of None \<Rightarrow> None | Some (cap, n) \<Rightarrow> Some (cap, n + 4)))
      else None)"

text \<open>The successive \<^verbatim>\<open>exec\<close> results: \<open>skip\<close> characters still belong to the previous match.\<close>

fun css_urls_from :: "nat \<Rightarrow> string \<Rightarrow> string list" where
  "css_urls_from skip [] = []"
| "css_urls_from skip (c # cs) =
     (if 0 < skip then css_urls_from (skip - 1) cs
      else (case url_match (c # cs) of
              None \<Rightarrow> css_urls_from 0 cs
            | Some (cap, n) \<Rightarrow> cap # css_urls_from (n - 1) cs))"

definition css_urls :: "string \<Rightarrow> string list" where
  "css_urls css = css_urls_from 0 css"

section \<open>\<^verbatim>\<open>downloadAssets\<close>\<close>

record result =
  count :: nat
  attempted :: nat
  html :: "node list"
  assetMap_css :: "string list"
  assetMap_js :: "string list"
  assetMap_images :: nat

text \<open>\<^verbatim>\<open>await axios.get(u)\<close>: the request is logged; \<open>None\<close> is the exception.\<close>

definition axios_get :: "env \<Rightarrow> string \<Rightarrow> world \<Rightarrow> string option \<times> world" where
  "axios_get e u w = (net e u, w\<lparr>requests := requests w @ [u]\<rparr>)"

text \<open>\<^verbatim>\<open>await fs.writeFile(p, data)\<close>: a failure is an exception nothing catches.\<close>

definition writeFile :: "env \<Rightarrow> string \<Rightarrow> string \<Rightarrow> world \<Rightarrow> error + world" where
  "writeFile e p data w =
     (if write_ok e p then Inr (w\<lparr>writes := writes w @ [(p, data)]\<rparr>) else Inl (FsError p))"

subsection \<open>Steps 1 and 2: style blocks and linked style sheets\<close>

definition inline_css :: "node list \<Rightarrow> string" where
  "inline_css doc = concat (map (\<lambda>el. html_of el @ [CHR 0x0A]) (select (has_tag ''style'') doc))"

text \<open>One turn of the loop over \<^verbatim>\<open>link[rel='stylesheet']\<close>: the text gathered so far and
  the world.\<close>

definition css_step :: "env \<Rightarrow> string \<Rightarrow> node \<Rightarrow> string \<times> world \<Rightarrow> string \<times> world" where
  "css_step e baseUrl el acc =
     (case node_attr el ''href'' of
        None \<Rightarrow> acc
      | Some h \<Rightarrow>
          if h = [] then acc
          else (case resolveUrl h baseUrl of
                  None \<Rightarrow> acc
                | Some absolute \<Rightarrow>
                    (case axios_get e absolute (snd acc) of
                       (Some data, w) \<Rightarrow> (fst acc @ data @ [CHR 0x0A], w)
                     | (None, w) \<Rightarrow> (fst acc, w))))"

text \<open>The links the loop removes: those whose style sheet was fetched.\<close>

definition link_fetched :: "env \<Rightarrow> string \<Rightarrow> node \<Rightarrow> bool" where
  "link_fetched e baseUrl n =
     (is_stylesheet_link n \<and>
      (case node_attr n ''href'' of
         None \<Rightarrow> False
       | Some h \<Rightarrow> h \<noteq> [] \<and> (case resolveUrl h baseUrl of
                                None \<Rightarrow> False
                              | Some absolute \<Rightarrow> net e absolute \<noteq> None)))"

subsection \<open>Steps 3 and 4: inline scripts and script sources\<close>

text \<open>The inline scripts that are merged and removed: no (or an empty) \<^verbatim>\<open>src\<close>, and a body
  that is not classified as tracking.\<close>

definition is_merged_inline_script :: "node \<Rightarrow> bool" where
  "is_merged_inline_script n =
     (has_tag ''script'' n \<and> \<not> truthy (node_attr n ''src'') \<and> \<not> isTrackingScriptContent (html_of n))"

definition inline_js :: "node list \<Rightarrow> string" where
  "inline_js doc = concat (map (\<lambda>el. html_of el @ [CHR 0x0A]) (select is_merged_inline_script doc))"

definition js_step :: "env \<Rightarrow> string \<Rightarrow> node \<Rightarrow> string \<times> world \<Rightarrow> string \<times> world" where
  "js_step e baseUrl el acc =
     (case node_attr el ''src'' of
        None \<Rightarrow> acc
      | Some src \<Rightarrow>
          if src = [] \<or> isTrackingScript src then acc
          else (case resolveUrl src baseUrl of
                  None \<Rightarrow> acc
                | Some absolute \<Rightarrow>
                    (case axios_get e absolute (snd acc) of
                       (Some data, w) \<Rightarrow> (fst acc @ data @ [CHR 0x0A], w)
                     | (None, w) \<Rightarrow> (fst acc, w))))"

text \<open>The \<^verbatim>\<open>script[src]\<close> elements the loop removes: an empty or tracking source, or a
  source that was fetched.\<close>

definition script_removed :: "env \<Rightarrow> string \<Rightarrow> node \<Rightarrow> bool" where
  "script_removed e baseUrl n =
     (tag_has_attr ''script'' ''src'' n \<and>
      (case node_attr n ''src'' of
         None \<Rightarrow> False
       | Some src \<Rightarrow>
           src = [] \<or> isTrackingScript src \<or>
           (case resolveUrl src baseUrl of
              None \<Rightarrow> False
            | Some absolute \<Rightarrow> net e absolute \<noteq> None)))"

subsection \<open>Steps 5 to 7: images, responsive images, style-text images, icons\<close>

text \<open>The state the callbacks share: the world, the promises pushed on
  \<^verbatim>\<open>imageDownloads\<close>, and the number of \<^verbatim>\<open>getFileName\<close> calls made so far.\<close>

record dl =
  dl_world :: world
  dl_tasks :: "task list"
  dl_calls :: nat

text \<open>
  The body shared by the four scans, once a reference has resolved to \<open>fullUrl\<close>: the
  local name is computed from the \<^emph>\<open>raw\<close> reference, the download is started, and the
  promise is pushed. The local path is returned for the rewrite.
\<close>

definition start_download :: "env \<Rightarrow> string \<Rightarrow> string \<Rightarrow> string \<Rightarrow> dl \<Rightarrow> string \<times> dl" where
  "start_download e outputDir raw fullUrl s =
     (let fileName = getFileName (clock e (dl_calls s)) raw ''images'';
          localPath = fileName;
          (t, w) = downloadAsset_call fullUrl (path_join outputDir localPath) (dl_world s)
      in (localPath, s\<lparr>dl_world := w, dl_tasks := dl_tasks s @ [t], dl_calls := Suc (dl_calls s)\<rparr>))"

text \<open>The callback of \<^verbatim>\<open>$("img").each\<close> (with \<open>name = src\<close>) and of the icon scan (with
  \<open>name = href\<close>).\<close>

definition ref_cb :: "string \<Rightarrow> env \<Rightarrow> string \<Rightarrow> string \<Rightarrow> attrs \<Rightarrow> dl \<Rightarrow> attrs \<times> dl" where
  "ref_cb name e baseUrl outputDir a s =
     (case attr a name of
        None \<Rightarrow> (a, s)
      | Some raw \<Rightarrow>
          if raw = [] then (a, s)
          else (case resolveUrl raw baseUrl of
                  None \<Rightarrow> (a, s)
                | Some fullUrl \<Rightarrow>
                    (let (localPath, s') = start_download e outputDir raw fullUrl s
                     in (set_attr a name localPath, s'))))"

text \<open>\<^verbatim>\<open>srcset.split(",").map((s) => s.trim().split(" ")[0])\<close>\<close>

definition srcset_urls :: "string \<Rightarrow> string list" where
  "srcset_urls srcset =
     map (\<lambda>s. case split_on CHR '' '' (trim s) of [] \<Rightarrow> [] | x # xs \<Rightarrow> x) (split_on CHR '','' srcset)"

text \<open>One turn of the loop over the candidates of a \<^verbatim>\<open>srcset\<close>: each replacement is made
  in the original attribute value \<open>srcset\<close>, and the result stored in the attribute.\<close>

definition srcset_step ::
  "env \<Rightarrow> string \<Rightarrow> string \<Rightarrow> string \<Rightarrow> string \<Rightarrow> attrs \<times> dl \<Rightarrow> attrs \<times> dl" where
  "srcset_step e baseUrl outputDir srcset u acc =
     (case resolveUrl u baseUrl of
        None \<Rightarrow> acc
      | Some fullUrl \<Rightarrow>
          (let (localPath, s') = start_download e outputDir u fullUrl (snd acc)
           in (set_attr (fst acc) ''srcset'' (replace_first srcset u localPath), s')))"

definition srcset_cb :: "env \<Rightarrow> string \<Rightarrow> string \<Rightarrow> attrs \<Rightarrow> dl \<Rightarrow> attrs \<times> dl" where
  "srcset_cb e baseUrl outputDir a s =
     (case attr a ''srcset'' of
        None \<Rightarrow> (a, s)
      | Some srcset \<Rightarrow>
          if srcset = [] then (a, s)
          else fold (srcset_step e baseUrl outputDir srcset) (srcset_urls srcset) (a, s))"

text \<open>One turn of the loop over the \<^verbatim>\<open>url(...)\<close> occurrences of the merged style text.\<close>

definition css_url_step ::
  "env \<Rightarrow> string \<Rightarrow> string \<Rightarrow> string \<Rightarrow> string \<times> dl \<Rightarrow> string \<times> dl" where
  "css_url_step e baseUrl outputDir imgUrl acc =
     (if startsWith imgUrl ''data:'' then acc
      else (case resolveUrl imgUrl baseUrl of
              None \<Rightarrow> acc
            | Some absolute \<Rightarrow>
                (let (localPath, s') = start_download e outputDir imgUrl absolute (snd acc)
                 in (replace_first (fst acc) imgUrl localPath, s'))))"

subsection \<open>The whole function\<close>

definition bundle_link :: node where
  "bundle_link = Element ''link'' [(''rel'', ''stylesheet''), (''href'', ''style.css'')] []"

definition bundle_script :: node where
  "bundle_script = Element ''script'' [(''src'', ''script.js'')] []"

text \<open>
  \<^verbatim>\<open>downloadAssets(html, baseUrl, outputDir)\<close> of the consolidating cloner. \<open>Inl\<close> is an
  exception that leaves the function: a directory that cannot be created or a bundle
  file that cannot be written. The suspended downloads complete at the final
  \<^verbatim>\<open>Promise.allSettled\<close>.
\<close>

definition downloadAssets ::
  "env \<Rightarrow> node list \<Rightarrow> string \<Rightarrow> string \<Rightarrow> world \<Rightarrow> error + (result \<times> world)" where
  "downloadAssets e doc baseUrl outputDir w0 =
     (let assetsDir = path_join outputDir ''assets'';
          dirs = [path_join assetsDir ''css'', path_join assetsDir ''js'', path_join assetsDir ''images'']
      in case filter (\<lambda>d. \<not> dir_ok e d) dirs of
           d # ds \<Rightarrow> Inl (FsError d)
         | [] \<Rightarrow>
      (let cssPath = path_join outputDir ''style.css'';
           doc1 = remove_all (has_tag ''style'') doc;
           (combinedCSS, w2) = fold (css_step e baseUrl) (select is_stylesheet_link doc1) (inline_css doc, w0);
           doc2 = remove_all (link_fetched e baseUrl) doc1
       in case (if trim combinedCSS \<noteq> [] then writeFile e cssPath combinedCSS w2 else Inr w2) of
            Inl err \<Rightarrow> Inl err
          | Inr w3 \<Rightarrow>
      (let doc3 = (if trim combinedCSS \<noteq> [] then map (append_in ''head'' [bundle_link]) doc2 else doc2);
           jsPath = path_join outputDir ''script.js'';
           doc4 = remove_all is_merged_inline_script doc3;
           (combinedJS, w4) = fold (js_step e baseUrl) (select (tag_has_attr ''script'' ''src'') doc4)
                                (inline_js doc3, w3);
           doc5 = remove_all (script_removed e baseUrl) doc4
       in case (if trim combinedJS \<noteq> [] then writeFile e jsPath combinedJS w4 else Inr w4) of
            Inl err \<Rightarrow> Inl err
          | Inr w5 \<Rightarrow>
      (let doc6 = (if trim combinedJS \<noteq> [] then map (append_in ''body'' [bundle_script]) doc5 else doc5);
           s0 = \<lparr>dl_world = w5, dl_tasks = [], dl_calls = 0\<rparr>;
           (doc7, s1) = each (has_tag ''img'') (ref_cb ''src'' e baseUrl outputDir) doc6 s0;
           (doc8, s2) = each (tag_has_attr ''img'' ''srcset'') (srcset_cb e baseUrl outputDir) doc7 s1;
           (updatedCSS, s3) = (if combinedCSS \<noteq> []
                               then fold (css_url_step e baseUrl outputDir) (css_urls combinedCSS)
                                      (combinedCSS, s2)
                               else (combinedCSS, s2))
       in case (if updatedCSS \<noteq> combinedCSS then writeFile e cssPath updatedCSS (dl_world s3)
                else Inr (dl_world s3)) of
            Inl err \<Rightarrow> Inl err
          | Inr w6 \<Rightarrow>
      (let (doc9, s4) = each is_icon_link (ref_cb ''href'' e baseUrl outputDir) doc8 (s3\<lparr>dl_world := w6\<rparr>);
           imageDownloads = dl_tasks s4;
           (results, w7) = allSettled e imageDownloads (dl_world s4);
           successful = length (filter (\<lambda>r. r = Fulfilled) results)
       in Inr (\<lparr>count = successful, attempted = length imageDownloads, html = doc9,
                 assetMap_css = (if combinedCSS \<noteq> [] then [''style.css''] else []),
                 assetMap_js = (if combinedJS \<noteq> [] then [''script.js''] else []),
                 assetMap_images = successful\<rparr>, w7))))))"

section \<open>\<^verbatim>\<open>generateHTMLOutput\<close>\<close>

record pageInfo =
  title :: string
  description :: string
  favicon :: string
  viewport :: string
  primaryColor :: string
  baseUrl :: string

datatype failure = Fs error | InvalidURL string | CaptureFailed

text \<open>The text of an element and its descendants, which \<^verbatim>\<open>:contains(...)\<close> searches.\<close>

fun text_content :: "node \<Rightarrow> string" where
  "text_content (Text t) = t"
| "text_content (Element t a cs) = concat (map text_content cs)"

text \<open>The scripts the first loop removes: a tracking source, or a non-empty body
  classified as tracking.\<close>

definition is_tracking_script_node :: "node \<Rightarrow> bool" where
  "is_tracking_script_node n =
     (has_tag ''script'' n \<and>
      ((case node_attr n ''src'' of None \<Rightarrow> False | Some src \<Rightarrow> src \<noteq> [] \<and> isTrackingScript src)
       \<or> (html_of n \<noteq> [] \<and> isTrackingScriptContent (html_of n))))"

definition is_tracking_iframe :: "node \<Rightarrow> bool" where
  "is_tracking_iframe n =
     (has_tag ''iframe'' n \<and>
      (case node_attr n ''src'' of None \<Rightarrow> False | Some src \<Rightarrow> src \<noteq> [] \<and> isTrackingScript src))"

text \<open>\<^verbatim>\<open>href && href.startsWith("/") && !href.startsWith("//")\<close>\<close>

definition is_root_relative :: "string \<Rightarrow> bool" where
  "is_root_relative h = (h \<noteq> [] \<and> startsWith h ''/'' \<and> \<not> startsWith h ''//'')"

text \<open>The anchors on which \<^verbatim>\<open>new URL(href, pageInfo.baseUrl)\<close> throws; the exception leaves
  the function.\<close>

definition anchor_throws :: "string \<Rightarrow> node \<Rightarrow> bool" where
  "anchor_throws base n =
     (has_tag ''a'' n \<and>
      (case node_attr n ''href'' of
         None \<Rightarrow> False
       | Some h \<Rightarrow> is_root_relative h \<and> URL_new h (Some base) = None))"

definition fix_anchor :: "string \<Rightarrow> attrs \<Rightarrow> attrs" where
  "fix_anchor base a =
     (case attr a ''href'' of
        None \<Rightarrow> a
      | Some h \<Rightarrow>
          if is_root_relative h
          then (case URL_new h (Some base) of
                  None \<Rightarrow> a
                | Some u \<Rightarrow> set_attr (set_attr a ''href'' (href u)) ''target'' ''_blank'')
          else a)"

text \<open>\<^verbatim>\<open>$(sel).each\<close> with a callback that only rewrites attributes of its own element.\<close>

fun map_attrs :: "(node \<Rightarrow> bool) \<Rightarrow> (attrs \<Rightarrow> attrs) \<Rightarrow> node \<Rightarrow> node" where
  "map_attrs P f (Text t) = Text t"
| "map_attrs P f (Element t a cs) =
     Element t (if P (Element t a cs) then f a else a) (map (map_attrs P f) cs)"

definition enhancement_css :: string where
  "enhancement_css = concat (map (\<lambda>l. [CHR 0x0A] @ l)
     [''        /* UI Clone Enhancement Styles - Minimal and Non-Conflicting */'',
      ''        html { '',
      ''          scroll-behavior: smooth; '',
      ''        }'',
      ''        '',
      ''        /* Ensure images are responsive without breaking existing styles */'',
      ''        img:not([style*=\"width\"]):not([style*=\"max-width\"]) { '',
      ''          max-width: 100%; '',
      ''          height: auto; '',
      ''        }'',
      ''        '',
      ''        /* Accessibility improvements */'',
      ''        a:focus, button:focus, input:focus, select:focus, textarea:focus {'',
      ''          outline: 2px solid #007acc;'',
      ''          outline-offset: 2px;'',
      ''        }'',
      ''        '',
      ''        /* Performance optimization for transitions */'',
      ''        * {'',
      ''          -webkit-font-smoothing: antialiased;'',
      ''          -moz-osx-font-smoothing: grayscale;'',
      ''        }'',
      ''      ''])"

text \<open>The nodes the template literal \<^verbatim>\<open>enhancementStyles\<close> parses to.\<close>

definition enhancementStyles :: "node list" where
  "enhancementStyles =
     [Text ([CHR 0x0A] @ ''      ''), Element ''style'' [] [Text enhancement_css],
      Text ([CHR 0x0A] @ ''    '')]"

definition viewport_meta :: "pageInfo \<Rightarrow> node" where
  "viewport_meta pi = Element ''meta'' [(''name'', ''viewport''), (''content'', viewport pi)] []"

definition description_meta :: "pageInfo \<Rightarrow> node" where
  "description_meta pi =
     Element ''meta'' [(''name'', ''description''), (''content'', description pi)] []"

definition has_scroll_style :: "node \<Rightarrow> bool" where
  "has_scroll_style n = (has_tag ''style'' n \<and> includes_str (text_content n) ''scroll-behavior'')"

text \<open>The three removals at the head of \<^verbatim>\<open>generateHTMLOutput\<close>: tracking scripts,
  \<^verbatim>\<open>noscript\<close> elements, tracking frames.\<close>

definition strip_tracking :: "node list \<Rightarrow> node list" where
  "strip_tracking doc =
     remove_all is_tracking_iframe (remove_all (has_tag ''noscript'') (remove_all is_tracking_script_node doc))"

text \<open>The loop over the anchors, when no \<^verbatim>\<open>new URL\<close> throws.\<close>

definition fix_anchors :: "string \<Rightarrow> node list \<Rightarrow> node list" where
  "fix_anchors base doc = map (map_attrs (has_tag ''a'') (fix_anchor base)) doc"

definition is_viewport_meta :: "node \<Rightarrow> bool" where
  "is_viewport_meta n = tag_attr_is ''meta'' ''name'' ''viewport'' n"

definition is_description_meta :: "node \<Rightarrow> bool" where
  "is_description_meta n = tag_attr_is ''meta'' ''name'' ''description'' n"

definition add_viewport :: "pageInfo \<Rightarrow> node list \<Rightarrow> node list" where
  "add_viewport pi doc =
     (if select is_viewport_meta doc = [] then map (prepend_in ''head'' [viewport_meta pi]) doc else doc)"

definition add_description :: "pageInfo \<Rightarrow> node list \<Rightarrow> node list" where
  "add_description pi doc =
     (if select is_description_meta doc = [] \<and> description pi \<noteq> []
      then map (append_in ''head'' [description_meta pi]) doc else doc)"

definition add_enhancement :: "node list \<Rightarrow> node list" where
  "add_enhancement doc =
     (if select has_scroll_style doc = [] then map (append_in ''head'' enhancementStyles) doc else doc)"

text \<open>The document part of \<^verbatim>\<open>generateHTMLOutput\<close>: what is then written to
  \<^verbatim>\<open>index.html\<close>. An anchor on which \<^verbatim>\<open>new URL\<close> throws ends the function.\<close>

definition rewrite_document :: "pageInfo \<Rightarrow> node list \<Rightarrow> failure + node list" where
  "rewrite_document pi doc =
     (let doc3 = strip_tracking doc
      in case select (anchor_throws (baseUrl pi)) doc3 of
           n # ns \<Rightarrow> Inl (InvalidURL (baseUrl pi))
         | [] \<Rightarrow> Inr (add_enhancement (add_description pi (add_viewport pi
                        (fix_anchors (baseUrl pi) doc3)))))"

text \<open>
  \<^verbatim>\<open>generateHTMLOutput(html, outputDir, pageInfo)\<close>: the document is rewritten and saved,
  then \<^verbatim>\<open>createServerScript\<close> writes the two constant helper files. The result is the
  document saved; the contents of the three files are not entered in the write log.
\<close>

definition generateHTMLOutput ::
  "env \<Rightarrow> node list \<Rightarrow> string \<Rightarrow> pageInfo \<Rightarrow> failure + node list" where
  "generateHTMLOutput e doc outputDir pi =
     (case rewrite_document pi doc of
        Inl err \<Rightarrow> Inl err
      | Inr doc' \<Rightarrow>
          (case filter (\<lambda>p. \<not> write_ok e p)
                  [path_join outputDir ''index.html'', path_join outputDir ''serve.py'',
                   path_join outputDir ''serve.bat''] of
             p # ps \<Rightarrow> Inl (Fs (FsError p))
           | [] \<Rightarrow> Inr doc'))"

section \<open>\<^verbatim>\<open>clone\<close>\<close>

text \<open>
  The page capture (the headless browser) and the AI processor are collaborators outside
  the function: \<open>page\<close> is the captured markup with its metadata, \<open>None\<close> when the capture
  throws; \<open>aiProcessor\<close> is \<^verbatim>\<open>options.aiProcessor\<close>, a transformation of markup that may throw
  (\<open>None\<close>); \<open>useAI\<close> is \<^verbatim>\<open>options.useAI\<close>, \<open>None\<close> when the option is absent.
\<close>

record clone_result =
  outputPath :: string
  assetsCount :: nat
  mainFile :: string
  scanned :: "node list"
  written :: "node list"

text \<open>The consolidating cloner. \<open>scanned\<close> records the markup handed to
  \<^verbatim>\<open>downloadAssets\<close>, \<open>written\<close> the document saved as \<^verbatim>\<open>index.html\<close>.\<close>

definition clone ::
  "env \<Rightarrow> (node list \<times> pageInfo) option \<Rightarrow> (node list \<Rightarrow> node list option) option \<Rightarrow> bool option
     \<Rightarrow> string \<Rightarrow> string \<Rightarrow> world \<Rightarrow> failure + (clone_result \<times> world)" where
  "clone e page aiProcessor useAI u outputDir w =
     (if \<not> dir_ok e outputDir then Inl (Fs (FsError outputDir))
      else case page of
        None \<Rightarrow> Inl CaptureFailed
      | Some (html0, pi) \<Rightarrow>
          (let finalHTML =
                 (case aiProcessor of
                    None \<Rightarrow> html0
                  | Some cleanWithAI \<Rightarrow>
                      if useAI \<noteq> Some False
                      then (case cleanWithAI html0 of None \<Rightarrow> html0 | Some cleaned \<Rightarrow> cleaned)
                      else html0)
           in case downloadAssets e finalHTML u outputDir w of
                Inl err \<Rightarrow> Inl (Fs err)
              | Inr (assetsResult, w1) \<Rightarrow>
                  (case generateHTMLOutput e (html assetsResult) outputDir pi of
                     Inl err \<Rightarrow> Inl err
                   | Inr out \<Rightarrow>
                       Inr (\<lparr>outputPath = outputDir, assetsCount = count assetsResult,
                              mainFile = ''index.html'', scanned = finalHTML, written = out\<rparr>, w1))))"

subsection \<open>The other variant of \<^verbatim>\<open>clone\<close>\<close>

record assets_result =
  ar_count :: nat
  ar_html :: "node list"
  ar_css :: "string list"
  ar_js :: "string list"
  ar_images :: "string list"

text \<open>\<^verbatim>\<open>injectAssetsIntoHTML(aiHTML, assetMap)\<close>\<close>

definition injectAssetsIntoHTML :: "node list \<Rightarrow> assets_result \<Rightarrow> node list" where
  "injectAssetsIntoHTML aiHTML assetMap =
     (let d0 = (if select (has_tag ''head'') aiHTML = []
                then map (prepend_in ''html'' [Element ''head'' [] []]) aiHTML else aiHTML);
          d1 = fold (\<lambda>cssPath d. map (append_in ''head''
                       [Element ''link'' [(''rel'', ''stylesheet''), (''href'', cssPath)] []]) d)
                 (ar_css assetMap) d0
      in fold (\<lambda>jsPath d. map (append_in ''body'' [Element ''script'' [(''src'', jsPath)] []]) d)
           (ar_js assetMap) d1)"

text \<open>
  The variant of \<^verbatim>\<open>clone\<close> that keeps one file per asset. Its own \<^verbatim>\<open>downloadAssets\<close> is the
  argument \<open>scan\<close>: the data flow of \<^verbatim>\<open>clone\<close> does not depend on what it computes.
\<close>

definition clone_separate ::
  "(node list \<Rightarrow> string \<Rightarrow> string \<Rightarrow> world \<Rightarrow> error + (assets_result \<times> world))
     \<Rightarrow> env \<Rightarrow> (node list \<times> pageInfo) option \<Rightarrow> (node list \<Rightarrow> node list option) option \<Rightarrow> bool option
     \<Rightarrow> string \<Rightarrow> string \<Rightarrow> world \<Rightarrow> failure + (clone_result \<times> world)" where
  "clone_separate scan e page aiProcessor useAI u outputDir w =
     (if \<not> dir_ok e outputDir then Inl (Fs (FsError outputDir))
      else case page of
        None \<Rightarrow> Inl CaptureFailed
      | Some (html0, pi) \<Rightarrow>
          (let ai_used = (aiProcessor \<noteq> None \<and> useAI = Some True);
               processedHTML =
                 (case aiProcessor of
                    None \<Rightarrow> html0
                  | Some processHTML \<Rightarrow>
                      if useAI = Some True
                      then (case processHTML html0 of None \<Rightarrow> html0 | Some p \<Rightarrow> p)
                      else html0)
           in case scan html0 u outputDir w of
                Inl err \<Rightarrow> Inl (Fs err)
              | Inr (assetsResult, w1) \<Rightarrow>
                  (let finalHTML = (if ai_used \<and> 0 < ar_count assetsResult
                                    then injectAssetsIntoHTML processedHTML assetsResult
                                    else ar_html assetsResult)
                   in case generateHTMLOutput e finalHTML outputDir pi of
                        Inl err \<Rightarrow> Inl err
                      | Inr out \<Rightarrow>
                          Inr (\<lparr>outputPath = outputDir, assetsCount = ar_count assetsResult,
                                 mainFile = ''index.html'', scanned = html0, written = out\<rparr>, w1))))"

section \<open>Sample inputs\<close>

definition sample_page :: "node list \<Rightarrow> node list" where
  "sample_page body = [Element ''html'' [] [Element ''head'' [] [], Element ''body'' [] body]]"

definition sample_img :: "string \<Rightarrow> node" where
  "sample_img s = Element ''img'' [(''src'', s)] []"

text \<open>A network on which every request succeeds, and one on which every request fails;
  the disk works in both.\<close>

definition online :: env where
  "online = \<lparr>net = (\<lambda>u. Some ''DATA''), dir_ok = (\<lambda>d. True), write_ok = (\<lambda>p. True),
             clock = (\<lambda>k. 1000 + k)\<rparr>"

definition offline :: env where
  "offline = \<lparr>net = (\<lambda>u. None), dir_ok = (\<lambda>d. True), write_ok = (\<lambda>p. True),
              clock = (\<lambda>k. 1000 + k)\<rparr>"

text \<open>What a run of \<^verbatim>\<open>downloadAssets\<close> lets one observe: the count returned, the number of
  downloads attempted, the document returned, the requests issued and the files written.\<close>

definition observed ::
  "error + (result \<times> world) \<Rightarrow> (nat \<times> nat \<times> node list \<times> string list \<times> (string \<times> string) list) option" where
  "observed x = (case x of Inl err \<Rightarrow> None
                 | Inr (r, w) \<Rightarrow> Some (count r, attempted r, html r, requests w, writes w))"

text \<open>The registered URLs as a scan state sees them.\<close>

definition kept :: "dl \<Rightarrow> string set" where
  "kept s = downloadedAssets (dl_world s)"

text \<open>All elements of a document, in document order.\<close>

definition all_elements :: "node list \<Rightarrow> node list" where
  "all_elements doc = concat (map elements doc)"

definition sample_info :: pageInfo where
  "sample_info = \<lparr>title = ''Sample'', description = [], favicon = [],
       viewport = ''width=device-width, initial-scale=1.0'', primaryColor = ''#ffffff'',
       baseUrl = ''https://example.com/''\<rparr>"




text \<open>An AI processor that answers every page with a page of its own, and a stand-in for
  the asset scan of the other variant that reports one style sheet.\<close>

definition sample_ai_page :: "node list" where
  "sample_ai_page = sample_page [sample_img ''https://cdn.example.com/ai.png'']"

definition sample_ai :: "node list \<Rightarrow> node list option" where
  "sample_ai d = Some sample_ai_page"

definition sample_scan :: "node list \<Rightarrow> string \<Rightarrow> string \<Rightarrow> world \<Rightarrow> error + (assets_result \<times> world)" where
  "sample_scan d u outputDir w =
     Inr (\<lparr>ar_count = 1, ar_html = d, ar_css = [''assets/css/site.css''], ar_js = [], ar_images = []\<rparr>, w)"

text \<open>What a run of \<^verbatim>\<open>clone\<close> lets one observe: the markup scanned, the number of assets
  reported and the requests issued.\<close>

definition clone_observed ::
  "failure + (clone_result \<times> world) \<Rightarrow> (node list \<times> nat \<times> string list) option" where
  "clone_observed x = (case x of Inl err \<Rightarrow> None
                       | Inr (r, w) \<Rightarrow> Some (scanned r, assetsCount r, requests w))"

text \<open>A network that serves two different bodies under two URLs that differ in their
  query string only.\<close>

definition two_versions :: env where
  "two_versions = \<lparr>net = (\<lambda>u. if u = ''https://cdn.example.com/x.png'' then Some ''OLD''
                                else Some ''NEW''),
                    dir_ok = (\<lambda>d. True), write_ok = (\<lambda>p. True), clock = (\<lambda>k. 1000 + k)\<rparr>"



section \<open>Facts about the string primitives\<close>




section \<open>The URL resolver on non-fetchable prefixes\<close>









section \<open>Local file names ignore everything but the last path portion\<close>

text \<open>
  Claim C3, as amended. \<^verbatim>\<open>getFileName\<close> derives the name from the type and the last portion
  of the URL's path only, and appends no disambiguating suffix: two URLs that parse and
  agree on that portion receive the same local name, whatever their hosts and query
  strings.
\<close>

theorem getFileName_same_basename:
  assumes "URL_new a None = Some ua" and "URL_new b None = Some ub"
    and "basename (pathname ua) = basename (pathname ub)"
  shows "getFileName now a type = getFileName now' b type"
  using assms by (simp add: getFileName_def)

theorem getFileName_same_basename_witness:
  "URL_new ''https://cdn.example.com/x.png'' None \<noteq> None
   \<and> URL_new ''https://cdn.example.com/x.png?v=2'' None \<noteq> None
   \<and> getFileName 1 ''https://cdn.example.com/x.png'' ''images''
       = getFileName 2 ''https://cdn.example.com/x.png?v=2'' ''images''"
proof -
  define ua where "ua = \<lparr>u_scheme = ''https'', u_kind = Authority, u_host = ''cdn.example.com'',
    pathname = ''/x.png'', u_search = [], u_hash = []\<rparr>"
  define ub where "ub = \<lparr>u_scheme = ''https'', u_kind = Authority, u_host = ''cdn.example.com'',
    pathname = ''/x.png'', u_search = ''?v=2'', u_hash = []\<rparr>"
  have a: "URL_new ''https://cdn.example.com/x.png'' None = Some ua"
    unfolding ua_def by code_simp
  have b: "URL_new ''https://cdn.example.com/x.png?v=2'' None = Some ub"
    unfolding ub_def by code_simp
  have pa: "pathname ua = ''/x.png''" and pb: "pathname ub = ''/x.png''"
    by (simp_all add: ua_def ub_def)
  from getFileName_same_basename [OF a b, of 1 "''images''" 2] pa pb a b
  show ?thesis by simp
qed

theorem getFileName_collision_counterexample:
  "resolveUrl ''https://cdn.example.com/x.png'' ''https://example.com/''
     \<noteq> resolveUrl ''https://cdn.example.com/x.png?v=2'' ''https://example.com/''
   \<and> getFileName 17 ''https://cdn.example.com/x.png'' ''images'' = ''x.png''
   \<and> getFileName 17 ''https://cdn.example.com/x.png?v=2'' ''images'' = ''x.png''
   \<and> observed (downloadAssets two_versions
        (sample_page [sample_img ''https://cdn.example.com/x.png'',
                      sample_img ''https://cdn.example.com/x.png?v=2''])
        ''https://example.com/'' ''out'' new_cloner)
      = Some (2, 2, sample_page [sample_img ''x.png'', sample_img ''x.png''],
              [''https://cdn.example.com/x.png'', ''https://cdn.example.com/x.png?v=2''],
              [(''out/x.png'', ''OLD''), (''out/x.png'', ''NEW'')])"
  by code_simp

section \<open>Attributes\<close>

lemma attr_set_attr_same: "attr (set_attr a name v) name = Some v"
  by (induction a name v rule: set_attr.induct) (auto simp: attr_def)


section \<open>Duplicate references within one run\<close>

text \<open>
  Claim C1, evaluated on the code. A fresh cloner scans a page whose two images carry the
  same absolute URL: both calls of \<^verbatim>\<open>downloadAsset\<close> pass the guard, because the URL enters
  \<^verbatim>\<open>downloadedAssets\<close> only when a write has finished, so the URL is requested twice and the
  file written twice. On a page whose two images name one URL in two ways (a root-relative
  and an absolute reference) the URL is again requested twice, and the two references are
  rewritten to two different local paths, since the local name is computed from the raw
  reference.
\<close>

theorem downloadAssets_duplicate_reference_fetched_twice:
  "observed (downloadAssets online
      (sample_page [sample_img ''https://cdn.example.com/x.png'',
                    sample_img ''https://cdn.example.com/x.png''])
      ''https://example.com/'' ''out'' new_cloner)
     = Some (2, 2, sample_page [sample_img ''x.png'', sample_img ''x.png''],
             [''https://cdn.example.com/x.png'', ''https://cdn.example.com/x.png''],
             [(''out/x.png'', ''DATA''), (''out/x.png'', ''DATA'')])
   \<and> observed (downloadAssets online
      (sample_page [sample_img ''/x.png'', sample_img ''https://example.com/x.png''])
      ''https://example.com/'' ''out'' new_cloner)
     = Some (2, 2, sample_page [sample_img ''image_1000.png'', sample_img ''x.png''],
             [''https://example.com/x.png'', ''https://example.com/x.png''],
             [(''out/image_1000.png'', ''DATA''), (''out/x.png'', ''DATA'')])"
  by code_simp

section \<open>The count of downloaded assets\<close>

text \<open>
  Claim C6, evaluated on the code. Every request fails, so nothing is fetched and nothing
  is written; the failure is caught inside \<^verbatim>\<open>downloadAsset\<close>, its promise is fulfilled, and
  \<^verbatim>\<open>downloadAssets\<close> returns and reports one downloaded asset out of one.
\<close>

theorem downloadAssets_counts_failed_fetch:
  "observed (downloadAssets offline
      (sample_page [sample_img ''https://cdn.example.com/x.png''])
      ''https://example.com/'' ''out'' new_cloner)
     = Some (1, 1, sample_page [sample_img ''x.png''], [''https://cdn.example.com/x.png''], [])"
  by code_simp

subsection \<open>The count does not depend on the network\<close>

lemma resume_fulfilled:
  "\<forall>p. write_ok e p \<Longrightarrow> fst (downloadAsset_resume e t w) = Fulfilled"
  by (auto simp: downloadAsset_resume_def split: task.splits option.splits)

lemma allSettled_fulfilled:
  "\<forall>p. write_ok e p \<Longrightarrow> length (filter (\<lambda>r. r = Fulfilled) (fst (allSettled e ts w))) = length ts"
proof (induction ts arbitrary: w)
  case Nil
  then show ?case by simp
next
  case (Cons t ts)
  obtain r w1 where r: "downloadAsset_resume e t w = (r, w1)" by (cases "downloadAsset_resume e t w")
  obtain rs w2 where rs: "allSettled e ts w1 = (rs, w2)" by (cases "allSettled e ts w1")
  from resume_fulfilled [OF Cons.prems, of t w] r have "r = Fulfilled" by simp
  moreover from Cons.IH [OF Cons.prems, of w1] rs
  have "length (filter (\<lambda>r. r = Fulfilled) rs) = length ts" by simp
  ultimately show ?case using r rs by simp
qed

lemma allSettled_fulfilled':
  "\<forall>p. write_ok e p \<Longrightarrow> allSettled e ts w = (rs, w')
     \<Longrightarrow> length (filter (\<lambda>r. r = Fulfilled) rs) = length ts"
  using allSettled_fulfilled [of e ts w] by simp

text \<open>
  With a disk that never fails, every promise is fulfilled, so the count returned is the
  number of downloads attempted, whatever the network answers.
\<close>

lemma downloadAssets_count_ignores_network:
  assumes "\<forall>p. write_ok e p" and "downloadAssets e doc base outputDir w = Inr (r, w')"
  shows "count r = attempted r"
  using assms(2)
  unfolding downloadAssets_def Let_def
  by (auto split: list.splits sum.splits prod.splits dest!: allSettled_fulfilled' [OF assms(1)])

section \<open>References are rewritten before their download settles\<close>

text \<open>
  Claim C2, as amended. The callback of the image scan and of the icon scan leaves a
  reference untouched when the attribute is missing or empty or when its value does not
  resolve; when the value resolves, the attribute is set to the local name computed from
  it, whatever the network later answers (the environment \<open>e\<close> is arbitrary).
\<close>

theorem ref_cb_rewrites_every_resolved_reference:
  "(attr a name = None \<or> attr a name = Some [] \<longrightarrow> ref_cb name e base out a s = (a, s))
   \<and> (\<forall>raw. attr a name = Some raw \<and> resolveUrl raw base = None
          \<longrightarrow> ref_cb name e base out a s = (a, s))
   \<and> (\<forall>raw fullUrl. attr a name = Some raw \<and> raw \<noteq> [] \<and> resolveUrl raw base = Some fullUrl
          \<longrightarrow> attr (fst (ref_cb name e base out a s)) name
              = Some (getFileName (clock e (dl_calls s)) raw ''images''))"
  by (auto simp: ref_cb_def start_download_def Let_def attr_set_attr_same split: prod.splits)

theorem ref_cb_rewrites_every_resolved_reference_witness:
  "attr [(''src'', ''https://cdn.example.com/logo.png'')] ''src''
     = Some ''https://cdn.example.com/logo.png''
   \<and> resolveUrl ''https://cdn.example.com/logo.png'' ''https://example.com/''
     = Some ''https://cdn.example.com/logo.png''
   \<and> net offline ''https://cdn.example.com/logo.png'' = None
   \<and> attr (fst (ref_cb ''src'' offline ''https://example.com/'' ''out''
                 [(''src'', ''https://cdn.example.com/logo.png'')]
                 \<lparr>dl_world = new_cloner, dl_tasks = [], dl_calls = 0\<rparr>)) ''src''
     = Some ''logo.png''
   \<and> resolveUrl ''logo.png'' ''nowhere'' = None
   \<and> ref_cb ''src'' offline ''nowhere'' ''out'' [(''src'', ''logo.png'')]
        \<lparr>dl_world = new_cloner, dl_tasks = [], dl_calls = 0\<rparr>
     = ([(''src'', ''logo.png'')], \<lparr>dl_world = new_cloner, dl_tasks = [], dl_calls = 0\<rparr>)"
proof -
  let ?s = "\<lparr>dl_world = new_cloner, dl_tasks = [], dl_calls = 0\<rparr>"
  have h1: "attr [(''src'', ''https://cdn.example.com/logo.png'')] ''src''
      = Some ''https://cdn.example.com/logo.png''"
    by (simp add: attr_def)
  have h2: "resolveUrl ''https://cdn.example.com/logo.png'' ''https://example.com/''
      = Some ''https://cdn.example.com/logo.png''"
    by code_simp
  have h3: "net offline ''https://cdn.example.com/logo.png'' = None"
    by (simp add: offline_def)
  have g: "getFileName (clock offline (dl_calls ?s)) ''https://cdn.example.com/logo.png'' ''images''
      = ''logo.png''"
    by code_simp
  have h4: "attr [(''src'', ''logo.png'')] ''src'' = Some ''logo.png''"
    by (simp add: attr_def)
  have h5: "resolveUrl ''logo.png'' ''nowhere'' = None"
    by code_simp
  from ref_cb_rewrites_every_resolved_reference
         [of "[(''src'', ''https://cdn.example.com/logo.png'')]" "''src''" offline
             "''https://example.com/''" "''out''" ?s] h1 h2 g
  have a: "attr (fst (ref_cb ''src'' offline ''https://example.com/'' ''out''
                 [(''src'', ''https://cdn.example.com/logo.png'')] ?s)) ''src'' = Some ''logo.png''"
    by simp
  from ref_cb_rewrites_every_resolved_reference
         [of "[(''src'', ''logo.png'')]" "''src''" offline "''nowhere''" "''out''" ?s] h4 h5
  have b: "ref_cb ''src'' offline ''nowhere'' ''out'' [(''src'', ''logo.png'')] ?s
      = ([(''src'', ''logo.png'')], ?s)"
    by simp
  from h1 h2 h3 a h5 b show ?thesis by simp
qed

theorem downloadAssets_rewrites_failed_reference_counterexample:
  "observed (downloadAssets offline
      (sample_page [sample_img ''https://cdn.example.com/logo.png'',
                    Element ''link'' [(''rel'', ''icon''), (''href'', ''https://cdn.example.com/f.ico'')] []])
      ''https://example.com/'' ''out'' new_cloner)
     = Some (2, 2,
             sample_page [sample_img ''logo.png'',
                          Element ''link'' [(''rel'', ''icon''), (''href'', ''f.ico'')] []],
             [''https://cdn.example.com/logo.png'', ''https://cdn.example.com/f.ico''], [])"
  by code_simp

section \<open>The set of downloaded URLs only grows\<close>

lemma call_assets [simp]: "downloadedAssets (snd (downloadAsset_call u lp w)) = downloadedAssets w"
  by (simp add: downloadAsset_call_def)



lemma css_step_assets [simp]:
  "downloadedAssets (snd (css_step e b el acc)) = downloadedAssets (snd acc)"
  by (auto simp: css_step_def axios_get_def split: option.splits prod.splits)

lemma js_step_assets [simp]:
  "downloadedAssets (snd (js_step e b el acc)) = downloadedAssets (snd acc)"
  by (auto simp: js_step_def axios_get_def split: option.splits prod.splits)




lemma start_download_kept [simp]: "kept (snd (start_download e out raw u s)) = kept s"
  by (simp add: start_download_def kept_def Let_def split: prod.splits)
     (metis call_assets snd_conv)

lemma ref_cb_kept [simp]: "kept (snd (ref_cb name e b out a s)) = kept s"
  by (auto simp: ref_cb_def Let_def split: option.splits prod.splits)
     (metis start_download_kept snd_conv)+

lemma srcset_step_kept [simp]: "kept (snd (srcset_step e b out srcset u acc)) = kept (snd acc)"
  by (auto simp: srcset_step_def Let_def split: option.splits prod.splits)
     (metis start_download_kept snd_conv)+

lemma fold_srcset_step_kept [simp]:
  "kept (snd (fold (srcset_step e b out srcset) us acc)) = kept (snd acc)"
  by (induction us arbitrary: acc) simp_all

lemma srcset_cb_kept [simp]: "kept (snd (srcset_cb e b out a s)) = kept s"
  by (auto simp: srcset_cb_def split: option.splits)

lemma css_url_step_kept [simp]: "kept (snd (css_url_step e b out u acc)) = kept (snd acc)"
  by (auto simp: css_url_step_def Let_def split: option.splits prod.splits)
     (metis start_download_kept snd_conv)+




lemma kept_upd [simp]: "kept (s\<lparr>dl_world := w\<rparr>) = downloadedAssets w"
  by (simp add: kept_def)













section \<open>Facts about the document operations\<close>



lemma all_elements_Cons: "all_elements (n # ns) = elements n @ all_elements ns"
  by (simp add: all_elements_def)

lemma elements_are_elements: "m \<in> set (elements n) \<Longrightarrow> \<exists>t a cs. m = Element t a cs"
proof (induction n)
  case (Element t a cs)
  then show ?case by auto
next
  case (Text t)
  then show ?case by simp
qed

lemma set_elements_Element:
  "set (elements (Element t a cs)) = insert (Element t a cs) (set (all_elements cs))"
  by (simp add: all_elements_def)

lemma self_in_elements: "m \<in> set (elements n) \<Longrightarrow> n \<in> set (elements n)"
  by (cases n) auto








subsection \<open>What the operations keep of a node\<close>

lemma has_tag_prune [simp]: "has_tag tg (prune P n) = has_tag tg n"
  by (cases n) simp_all

lemma attrs_of_prune [simp]: "attrs_of (prune P n) = attrs_of n"
  by (cases n) simp_all

lemma text_of_prune [simp]: "text_of (prune P c) = text_of c"
  by (cases c) simp_all



lemma has_tag_map_attrs [simp]: "has_tag tg (map_attrs A f n) = has_tag tg n"
  by (cases n) simp_all


lemma text_of_map_attrs [simp]: "text_of (map_attrs A f c) = text_of c"
  by (cases c) simp_all

lemma html_of_map_attrs [simp]: "html_of (map_attrs A f n) = html_of n"
  by (cases n) (simp_all add: html_of_def comp_def)

lemma has_tag_append_in [simp]: "has_tag tg' (append_in tg new n) = has_tag tg' n"
  by (cases n) simp_all

lemma attrs_of_append_in [simp]: "attrs_of (append_in tg new n) = attrs_of n"
  by (cases n) simp_all

lemma text_of_append_in [simp]: "text_of (append_in tg new c) = text_of c"
  by (cases c) simp_all


lemma has_tag_prepend_in [simp]: "has_tag tg' (prepend_in tg new n) = has_tag tg' n"
  by (cases n) simp_all

lemma attrs_of_prepend_in [simp]: "attrs_of (prepend_in tg new n) = attrs_of n"
  by (cases n) simp_all

lemma text_of_prepend_in [simp]: "text_of (prepend_in tg new c) = text_of c"
  by (cases c) simp_all


subsection \<open>The elements of a rewritten document\<close>








subsection \<open>Existing elements survive an insertion, and the inserted ones arrive when the tag exists\<close>





subsection \<open>Operations that find nothing to do\<close>







section \<open>Selectors under the document operations\<close>






subsection \<open>Selectors that stay empty\<close>






subsection \<open>Selectors that stay inhabited\<close>




subsection \<open>The selectors of the rewriter are shallow\<close>

lemma node_attr_cong: "attrs_of n = attrs_of m \<Longrightarrow> node_attr n k = node_attr m k"
  by (simp add: node_attr_def)







section \<open>What the document rewriter removes\<close>


lemma no_text_selected [simp]:
  "\<not> is_tracking_script_node (Text t)" "\<not> is_tracking_iframe (Text t)"
  by (simp_all add: is_tracking_script_node_def is_tracking_iframe_def)

lemma all_elements_singleton_leaf [simp]: "all_elements [Element t a []] = [Element t a []]"
  by (simp add: all_elements_def)







subsection \<open>What \<open>strip_tracking\<close> leaves\<close>










section \<open>Tracking scripts\<close>








section \<open>The document rewriter applied twice\<close>

subsection \<open>A resolved URL does not begin with a slash\<close>










subsection \<open>The anchor loop leaves nothing for a second pass\<close>





subsection \<open>The insertions leave nothing for a second pass\<close>






















section \<open>Which markup is scanned\<close>

text \<open>
  Claim C8, as amended. In the consolidating cloner the effects and the count of \<^verbatim>\<open>clone\<close> are
  those of \<^verbatim>\<open>downloadAssets\<close> on the markup \<open>scanned\<close>, and the document saved is the rewrite of
  the document \<^verbatim>\<open>downloadAssets\<close> returned; \<open>scanned\<close> is the output of the AI step when a
  processor is supplied, \<^verbatim>\<open>useAI\<close> is not \<^verbatim>\<open>false\<close> and the call succeeds, and the captured
  markup otherwise. The other variant always scans the captured markup, and when AI is
  used and at least one download was counted it saves the AI output with the collected
  style and script paths injected.
\<close>

theorem clone_scans_processed_markup:
  "(clone e (Some (html0, pi)) aiProcessor useAI u outputDir w = Inr (r, w') \<longrightarrow>
      (\<exists>ar. downloadAssets e (scanned r) u outputDir w = Inr (ar, w') \<and> assetsCount r = count ar
            \<and> generateHTMLOutput e (html ar) outputDir pi = Inr (written r))
      \<and> (\<forall>f cleaned. aiProcessor = Some f \<and> useAI \<noteq> Some False \<and> f html0 = Some cleaned
            \<longrightarrow> scanned r = cleaned)
      \<and> (aiProcessor = None \<or> useAI = Some False \<or> (\<exists>f. aiProcessor = Some f \<and> f html0 = None)
            \<longrightarrow> scanned r = html0))
   \<and> (clone_separate scan e (Some (html0, pi)) aiProcessor useAI u outputDir w = Inr (r2, w2) \<longrightarrow>
      (\<exists>ar. scan html0 u outputDir w = Inr (ar, w2) \<and> scanned r2 = html0
            \<and> assetsCount r2 = ar_count ar
            \<and> (\<forall>f p. aiProcessor = Some f \<and> useAI = Some True \<and> f html0 = Some p \<and> 0 < ar_count ar
                  \<longrightarrow> generateHTMLOutput e (injectAssetsIntoHTML p ar) outputDir pi
                      = Inr (written r2))))"
proof (intro conjI impI)
  assume c: "clone e (Some (html0, pi)) aiProcessor useAI u outputDir w = Inr (r, w')"
  define finalHTML where "finalHTML =
     (case aiProcessor of None \<Rightarrow> html0
      | Some cleanWithAI \<Rightarrow>
          if useAI \<noteq> Some False
          then (case cleanWithAI html0 of None \<Rightarrow> html0 | Some cleaned \<Rightarrow> cleaned)
          else html0)"
  from c have dok: "dir_ok e outputDir"
    by (cases "dir_ok e outputDir") (simp_all add: clone_def)
  with c have "(case downloadAssets e finalHTML u outputDir w of
        Inl err \<Rightarrow> Inl (Fs err)
      | Inr (assetsResult, w1) \<Rightarrow>
          (case generateHTMLOutput e (html assetsResult) outputDir pi of
             Inl err \<Rightarrow> Inl err
           | Inr out \<Rightarrow>
               Inr (\<lparr>outputPath = outputDir, assetsCount = count assetsResult,
                      mainFile = ''index.html'', scanned = finalHTML, written = out\<rparr>, w1)))
      = Inr (r, w')"
    unfolding finalHTML_def clone_def Let_def by simp
  then obtain ar out where
    d: "downloadAssets e finalHTML u outputDir w = Inr (ar, w')"
    and g: "generateHTMLOutput e (html ar) outputDir pi = Inr out"
    and r: "r = \<lparr>outputPath = outputDir, assetsCount = count ar, mainFile = ''index.html'',
                 scanned = finalHTML, written = out\<rparr>"
    by (auto split: sum.splits prod.splits)
  from d g r show "\<exists>ar. downloadAssets e (scanned r) u outputDir w = Inr (ar, w')
      \<and> assetsCount r = count ar \<and> generateHTMLOutput e (html ar) outputDir pi = Inr (written r)"
    by auto
  from r show "\<forall>f cleaned. aiProcessor = Some f \<and> useAI \<noteq> Some False \<and> f html0 = Some cleaned
      \<longrightarrow> scanned r = cleaned"
    by (auto simp: finalHTML_def)
  from r show "scanned r = html0"
    if "aiProcessor = None \<or> useAI = Some False \<or> (\<exists>f. aiProcessor = Some f \<and> f html0 = None)"
    using that by (auto simp: finalHTML_def split: option.splits)
next
  assume c: "clone_separate scan e (Some (html0, pi)) aiProcessor useAI u outputDir w = Inr (r2, w2)"
  define processedHTML where "processedHTML =
     (case aiProcessor of None \<Rightarrow> html0
      | Some processHTML \<Rightarrow>
          if useAI = Some True
          then (case processHTML html0 of None \<Rightarrow> html0 | Some p \<Rightarrow> p)
          else html0)"
  from c have dok: "dir_ok e outputDir"
    by (cases "dir_ok e outputDir") (simp_all add: clone_separate_def)
  with c have "(case scan html0 u outputDir w of
        Inl err \<Rightarrow> Inl (Fs err)
      | Inr (assetsResult, w1) \<Rightarrow>
          (case generateHTMLOutput e
                  (if (aiProcessor \<noteq> None \<and> useAI = Some True) \<and> 0 < ar_count assetsResult
                   then injectAssetsIntoHTML processedHTML assetsResult
                   else ar_html assetsResult) outputDir pi of
             Inl err \<Rightarrow> Inl err
           | Inr out \<Rightarrow>
               Inr (\<lparr>outputPath = outputDir, assetsCount = ar_count assetsResult,
                      mainFile = ''index.html'', scanned = html0, written = out\<rparr>, w1)))
      = Inr (r2, w2)"
    unfolding processedHTML_def clone_separate_def Let_def by simp
  then obtain ar out where
    d: "scan html0 u outputDir w = Inr (ar, w2)"
    and g: "generateHTMLOutput e
              (if (aiProcessor \<noteq> None \<and> useAI = Some True) \<and> 0 < ar_count ar
               then injectAssetsIntoHTML processedHTML ar else ar_html ar) outputDir pi = Inr out"
    and r: "r2 = \<lparr>outputPath = outputDir, assetsCount = ar_count ar, mainFile = ''index.html'',
                  scanned = html0, written = out\<rparr>"
    by (auto split: sum.splits prod.splits)
  have "generateHTMLOutput e (injectAssetsIntoHTML p ar) outputDir pi = Inr (written r2)"
    if "aiProcessor = Some f \<and> useAI = Some True \<and> f html0 = Some p \<and> 0 < ar_count ar" for f p
    using that g r by (simp add: processedHTML_def)
  with d r show "\<exists>ar. scan html0 u outputDir w = Inr (ar, w2) \<and> scanned r2 = html0
      \<and> assetsCount r2 = ar_count ar
      \<and> (\<forall>f p. aiProcessor = Some f \<and> useAI = Some True \<and> f html0 = Some p \<and> 0 < ar_count ar
            \<longrightarrow> generateHTMLOutput e (injectAssetsIntoHTML p ar) outputDir pi = Inr (written r2))"
    by auto
qed

theorem clone_scans_processed_markup_witness:
  "\<exists>r w' r2 w2.
     clone online (Some (sample_page [sample_img ''https://cdn.example.com/x.png''], sample_info))
       (Some sample_ai) (Some True) ''https://example.com/'' ''out'' new_cloner = Inr (r, w')
     \<and> scanned r = sample_ai_page
     \<and> clone_separate sample_scan online
           (Some (sample_page [sample_img ''https://cdn.example.com/x.png''], sample_info))
           (Some sample_ai) (Some True) ''https://example.com/'' ''out'' new_cloner = Inr (r2, w2)
     \<and> scanned r2 = sample_page [sample_img ''https://cdn.example.com/x.png'']
     \<and> (\<exists>ar. generateHTMLOutput online (injectAssetsIntoHTML sample_ai_page ar) ''out'' sample_info
               = Inr (written r2))"
proof -
  let ?P = "sample_page [sample_img ''https://cdn.example.com/x.png'']"
  let ?c1 = "clone online (Some (?P, sample_info)) (Some sample_ai) (Some True)
      ''https://example.com/'' ''out'' new_cloner"
  let ?c2 = "clone_separate sample_scan online (Some (?P, sample_info)) (Some sample_ai) (Some True)
      ''https://example.com/'' ''out'' new_cloner"
  have "\<not> isl ?c1" by code_simp
  then obtain r w' where c1: "?c1 = Inr (r, w')" by (cases ?c1) auto
  have "\<not> isl ?c2" by code_simp
  then obtain r2 w2 where c2: "?c2 = Inr (r2, w2)" by (cases ?c2) auto
  have ai: "sample_ai ?P = Some sample_ai_page" by (simp add: sample_ai_def)
  note t = clone_scans_processed_markup
    [where e = online and ?html0.0 = ?P and pi = sample_info and aiProcessor = "Some sample_ai"
       and useAI = "Some True" and u = "''https://example.com/''" and outputDir = "''out''"
       and w = new_cloner and r = r and w' = w' and scan = sample_scan and ?r2.0 = r2 and ?w2.0 = w2]
  from t c1 ai have s1: "scanned r = sample_ai_page" by blast
  from t c2 obtain ar where ar: "sample_scan ?P ''https://example.com/'' ''out'' new_cloner = Inr (ar, w2)"
    "scanned r2 = ?P"
    "\<forall>f p. Some sample_ai = Some f \<and> Some True = Some True \<and> f ?P = Some p \<and> 0 < ar_count ar
        \<longrightarrow> generateHTMLOutput online (injectAssetsIntoHTML p ar) ''out'' sample_info = Inr (written r2)"
    by blast
  from ar(1) have "0 < ar_count ar" by (auto simp: sample_scan_def)
  with ar(3) ai have "generateHTMLOutput online (injectAssetsIntoHTML sample_ai_page ar) ''out'' sample_info
      = Inr (written r2)"
    by blast
  with c1 s1 c2 ar(2) show ?thesis by blast
qed

theorem clone_scans_ai_markup_counterexample:
  "sample_ai (sample_page [sample_img ''https://cdn.example.com/x.png'']) = Some sample_ai_page
   \<and> clone_observed (clone online (Some (sample_page [sample_img ''https://cdn.example.com/x.png''],
         sample_info)) (Some sample_ai) (Some True) ''https://example.com/'' ''out'' new_cloner)
      = Some (sample_ai_page, 1, [''https://cdn.example.com/ai.png''])"
  by code_simp

end
